theory Spec2Isabelle
  imports Complex_Main
begin

section \<open>Formatting helpers (lib/format)\<close>

text \<open>
  The two helpers work on JavaScript numbers. A byte count is a non-negative integer;
  binary64 holds every integer below \<open>2 ^ 53\<close> exactly, and on those the comparisons and
  the divisions by \<open>1024\<close> and \<open>1024 * 1024\<close> (powers of two) of \<open>formatFileSize\<close> are
  exact, so the quotient is the rational number computed here. A duration is modelled as
  a rational number of seconds.

  \<open>String(n)\<close>, \<open>padStart\<close> and \<open>toFixed\<close> are library functions of the language;
  they are written out after ECMAScript. Strings are lists of characters.
\<close>

definition digitChar :: "nat \<Rightarrow> char" where
  "digitChar d = char_of (48 + d)"

text \<open>\<open>String(n)\<close> on a non-negative integer: its decimal digits.\<close>

function decimal :: "nat \<Rightarrow> string" where
  "decimal n = (if n < 10 then [digitChar n] else decimal (n div 10) @ [digitChar (n mod 10)])"
  by pat_completeness auto
termination
  by (relation "measure id") auto

declare decimal.simps [simp del]

definition String_int :: "int \<Rightarrow> string" where
  "String_int i = (if i < 0 then ''-'' @ decimal (nat (- i)) else decimal (nat i))"

text \<open>\<open>s.padStart(n, fill)\<close>: the filler is repeated and cut to the missing length.\<close>

definition padStart :: "string \<Rightarrow> nat \<Rightarrow> string \<Rightarrow> string" where
  "padStart s n fill =
     (if n \<le> length s \<or> fill = [] then s
      else take (n - length s) (concat (replicate (n - length s) fill)) @ s)"

text \<open>
  \<open>x.toFixed(f)\<close> below \<open>10 ^ 21\<close>: the sign, then the integer \<open>n\<close> closest to
  \<open>x * 10 ^ f\<close> (the larger one of two candidates), printed with \<open>f\<close> digits after
  the point and zeros added in front where \<open>n\<close> has too few digits. From \<open>10 ^ 21\<close>
  on the language prints exponent notation; a quotient of a byte count below \<open>2 ^ 53\<close>
  and a number of seconds below a minute are far from that bound.
\<close>

definition toFixed :: "rat \<Rightarrow> nat \<Rightarrow> string" where
  "toFixed x f =
     (let s = (if x < 0 then ''-'' else '''');
          a = \<bar>x\<bar>;
          n = nat \<lfloor>a * 10 ^ f + 1 / 2\<rfloor>;
          m = decimal n;
          m = (if f = 0 then m
               else let m = (if length m \<le> f then replicate (f + 1 - length m) CHR ''0'' @ m else m);
                        k = length m
                    in take (k - f) m @ ''.'' @ drop (k - f) m)
      in s @ m)"

definition formatDuration :: "rat \<Rightarrow> string" where
  "formatDuration seconds =
     (let mins = \<lfloor>seconds / 60\<rfloor>;
          secs = seconds - of_int mins * 60
      in padStart (String_int mins) 2 ''0'' @ '':'' @ padStart (toFixed secs 2) 5 ''0'' @ ''s'')"

definition formatFileSize :: "nat \<Rightarrow> string" where
  "formatFileSize bytes =
     (if bytes < 1024 then decimal bytes @ '' B''
      else if bytes < 1024 * 1024 then toFixed (of_nat bytes / 1024) 1 @ '' KB''
      else toFixed (of_nat bytes / (1024 * 1024)) 1 @ '' MB'')"


section \<open>The API client (lib/api)\<close>

text \<open>
  The payload types of the backend. Field names that occur in two interfaces carry the
  interface as a prefix in the later one.
\<close>

record UploadAudioResponse =
  task_id :: string
  filename :: string
  duration :: rat
  duration_formatted :: string
  sample_rate :: nat
  channels :: nat
  frequency_range :: string
  quality_score :: rat

record ProgressEvent =
  progress_status :: string
  progress_value :: nat
  stage :: string

record CompleteEvent =
  complete_task_id :: string
  complete_duration_formatted :: string
  complete_sample_rate :: nat
  file_size_bytes :: nat

record HealthResponse =
  status :: string
  model_loaded :: bool
  model_loading :: bool
  model_status :: string
  model_error :: "string option"
  device :: "string option"

text \<open>
  What a request to the backend comes back with. \<open>Health_ok h\<close> is a response with
  \<open>res.ok\<close> whose body is \<open>h\<close>; \<open>Health_not_ok st\<close> is a response with status \<open>st\<close>
  outside 200 to 299; \<open>Health_threw m\<close> is a \<open>fetch\<close> or a \<open>res.json()\<close> that rejects
  with an error of message \<open>m\<close>. The result of \<open>checkHealth\<close> is \<open>Inr\<close> the body, or
  \<open>Inl\<close> the message of the error it throws.
\<close>

datatype health_reply =
    Health_ok HealthResponse
  | Health_not_ok nat
  | Health_threw string

definition checkHealth :: "health_reply \<Rightarrow> string + HealthResponse" where
  "checkHealth r =
     (case r of
        Health_threw m \<Rightarrow> Inl m
      | Health_not_ok st \<Rightarrow> Inl ''API unreachable''
      | Health_ok h \<Rightarrow> Inr h)"

text \<open>
  The body of a response that is not a success is read with \<open>res.json()\<close>, which gives
  any JSON value. A number is kept as the text that \<open>String\<close> prints for it; the members
  of an object are kept in the order of the body.
\<close>

datatype json =
    JNull
  | JBool bool
  | JNumber string
  | JString string
  | JArray "json list"
  | JObject "(string \<times> json) list"

text \<open>\<open>Not_json\<close>: \<open>res.json()\<close> rejects, and the \<open>catch\<close> of the source puts \<open>{}\<close> in its place.\<close>

datatype upload_body = Not_json | Json json

text \<open>
  \<open>body.detail\<close>. On \<open>null\<close> the read throws a \<open>TypeError\<close>; on an object it gives the
  member \<open>detail\<close> (the last one of that name), on every other value and on an object
  without the member it gives \<open>undefined\<close>.
\<close>

datatype read = Read_throws | Undefined | Value json

definition readDetail :: "json \<Rightarrow> read" where
  "readDetail body =
     (case body of
        JNull \<Rightarrow> Read_throws
      | JObject fs \<Rightarrow> (case map_of (rev fs) ''detail'' of None \<Rightarrow> Undefined | Some v \<Rightarrow> Value v)
      | _ \<Rightarrow> Undefined)"

text \<open>
  \<open>new Error(v)\<close> takes \<open>String(v)\<close> as its message. An array prints its elements joined
  by commas, with nothing for \<open>null\<close>; an object prints \<open>[object Object]\<close>, unless it has
  a member \<open>toString\<close> (which no JSON value can make callable): then the conversion
  throws a \<open>TypeError\<close>, here \<open>None\<close>.
\<close>

fun join :: "string option list \<Rightarrow> string option" where
  "join [] = Some []"
| "join [x] = x"
| "join (x # y # ys) =
     (case x of
        None \<Rightarrow> None
      | Some a \<Rightarrow> (case join (y # ys) of None \<Rightarrow> None | Some b \<Rightarrow> Some (a @ '','' @ b)))"

fun String_json :: "json \<Rightarrow> string option" where
  "String_json JNull = Some ''null''"
| "String_json (JBool b) = Some (if b then ''true'' else ''false'')"
| "String_json (JNumber t) = Some t"
| "String_json (JString s) = Some s"
| "String_json (JArray xs) =
     join (map (\<lambda>x. case x of JNull \<Rightarrow> Some [] | _ \<Rightarrow> String_json x) xs)"
| "String_json (JObject fs) =
     (if ''toString'' \<in> fst ` set fs then None else Some ''[object Object]'')"

text \<open>
  \<open>Upload_ok d\<close> is a response with \<open>res.ok\<close> whose body is \<open>d\<close>. \<open>Upload_threw m\<close> is a
  \<open>fetch\<close>, or the \<open>res.json()\<close> of a success, that rejects with an error of message \<open>m\<close>.
  \<open>Upload_not_ok st body t\<close> is a response with status \<open>st\<close> and \<open>res.ok\<close> false; \<open>t\<close> is
  the message that the engine gives the \<open>TypeError\<close> of this reply, should reading
  \<open>body.detail\<close> or building the error throw one (the language leaves the text to the
  engine). The operator \<open>??\<close> takes the message built from the status for a \<open>detail\<close>
  that is \<open>undefined\<close> or \<open>null\<close>, and for no other.
\<close>

datatype upload_reply =
    Upload_ok UploadAudioResponse
  | Upload_not_ok nat upload_body string
  | Upload_threw string

definition uploadAudio :: "upload_reply \<Rightarrow> string + UploadAudioResponse" where
  "uploadAudio r =
     (case r of
        Upload_threw m \<Rightarrow> Inl m
      | Upload_not_ok st body t \<Rightarrow>
          (case readDetail (case body of Not_json \<Rightarrow> JObject [] | Json v \<Rightarrow> v) of
             Read_throws \<Rightarrow> Inl t
           | Undefined \<Rightarrow> Inl (''Upload failed ('' @ decimal st @ '')'')
           | Value JNull \<Rightarrow> Inl (''Upload failed ('' @ decimal st @ '')'')
           | Value v \<Rightarrow> (case String_json v of None \<Rightarrow> Inl t | Some m \<Rightarrow> Inl m))
      | Upload_ok d \<Rightarrow> Inr d)"


section \<open>The workflow controller (components/voice-engine)\<close>

datatype EngineState =
    Idle | Audio_uploaded | Processing | Processed | Script_uploaded | Generating | Complete

type_synonym File = string

text \<open>A pending \<open>setTimeout(() => setState(st), ms)\<close>.\<close>

datatype timer = Timer nat EngineState

text \<open>
  The component: its state variables and \<open>eventSourceRef\<close>, followed by what lives
  outside the component and decides which callbacks can still arrive:
  \<^item> \<open>streams\<close>: the \<open>EventSource\<close> objects that are open (made by \<open>new EventSource\<close>,
    not yet closed), each named by a number; \<open>nextStream\<close> names the next one;
  \<^item> \<open>timers\<close>: the timeouts that are pending;
  \<^item> \<open>uploads\<close>: the number of calls of \<open>uploadAudio\<close> that are awaited;
  \<^item> \<open>polling\<close>: whether the loop of the health effect is running.
\<close>

record VoiceEngine =
  state :: EngineState
  audioFile :: "File option"
  scriptText :: string
  progress :: nat
  generationStage :: string
  isPlaying :: bool
  error :: "string option"
  modelReady :: bool
  modelLoading :: bool
  modelStatus :: string
  taskId :: "string option"
  audioMetadata :: "UploadAudioResponse option"
  outputMetadata :: "CompleteEvent option"
  eventSourceRef :: "nat option"
  streams :: "nat list"
  nextStream :: nat
  timers :: "timer list"
  uploads :: nat
  polling :: bool

text \<open>The component after mounting: the health effect has started its loop.\<close>

definition initial :: VoiceEngine where
  "initial =
     \<lparr>state = Idle, audioFile = None, scriptText = '''', progress = 0, generationStage = '''',
      isPlaying = False, error = None, modelReady = False, modelLoading = True,
      modelStatus = ''connecting'', taskId = None, audioMetadata = None, outputMetadata = None,
      eventSourceRef = None, streams = [], nextStream = 0, timers = [], uploads = 0,
      polling = True\<rparr>"

text \<open>
  \<open>s.trim()\<close> removes white space and line terminators from both ends; among the
  characters below 256 these are the codes listed.
\<close>

definition isWhiteSpace :: "char \<Rightarrow> bool" where
  "isWhiteSpace c = (of_char c \<in> {9, 10, 11, 12, 13, 32, 160 :: nat})"

definition trim :: "string \<Rightarrow> string" where
  "trim s = rev (dropWhile isWhiteSpace (rev (dropWhile isWhiteSpace s)))"

definition endsWith :: "string \<Rightarrow> char \<Rightarrow> bool" where
  "endsWith s c = (s \<noteq> [] \<and> last s = c)"

text \<open>\<open>es.close()\<close>.\<close>

definition close :: "nat \<Rightarrow> VoiceEngine \<Rightarrow> VoiceEngine" where
  "close h s = s\<lparr>streams := removeAll h (streams s)\<rparr>"

subsection \<open>The callbacks\<close>

text \<open>
  Each callback is a function on the component. The state updates of one callback are
  applied together, as React batches them.
\<close>

definition handleAudioSelect :: "File \<Rightarrow> VoiceEngine \<Rightarrow> VoiceEngine" where
  "handleAudioSelect file s = s\<lparr>audioFile := Some file, state := Audio_uploaded, error := None\<rparr>"

definition handleAudioClear :: "VoiceEngine \<Rightarrow> VoiceEngine" where
  "handleAudioClear s = s\<lparr>audioFile := None, state := Idle\<rparr>"

text \<open>
  \<open>handleProcessAudio\<close> is asynchronous: the part up to \<open>await uploadAudio(audioFile)\<close>
  runs at the click, the rest (\<open>handleProcessAudio_resume\<close>) when the request settles.
\<close>

definition handleProcessAudio :: "VoiceEngine \<Rightarrow> VoiceEngine" where
  "handleProcessAudio s =
     (case audioFile s of
        None \<Rightarrow> s
      | Some file \<Rightarrow> s\<lparr>state := Processing, progress := 0, error := None, uploads := Suc (uploads s)\<rparr>)"

definition handleProcessAudio_resume :: "upload_reply \<Rightarrow> VoiceEngine \<Rightarrow> VoiceEngine" where
  "handleProcessAudio_resume r s =
     (case uploadAudio r of
        Inr data \<Rightarrow>
          s\<lparr>taskId := Some (task_id data), audioMetadata := Some data, progress := 100,
            timers := timers s @ [Timer 400 Processed], uploads := uploads s - 1\<rparr>
      | Inl message \<Rightarrow>
          s\<lparr>error := Some message, state := Audio_uploaded, uploads := uploads s - 1\<rparr>)"

text \<open>
  \<open>handleGenerateVoice\<close> returns at once when \<open>taskId\<close> is null or empty or the trimmed
  script is empty; otherwise it opens a new \<open>EventSource\<close> and stores it in
  \<open>eventSourceRef\<close>. Its three listeners are \<open>onProgress\<close>, \<open>onComplete\<close> and
  \<open>onError\<close>; the latter two take the stream \<open>es\<close> they were registered on.
\<close>

definition handleGenerateVoice :: "VoiceEngine \<Rightarrow> VoiceEngine" where
  "handleGenerateVoice s =
     (if taskId s = None \<or> taskId s = Some '''' \<or> trim (scriptText s) = '''' then s
      else s\<lparr>state := Generating, progress := 0, generationStage := ''Initializing'',
             error := None, streams := streams s @ [nextStream s],
             nextStream := Suc (nextStream s), eventSourceRef := Some (nextStream s)\<rparr>)"

definition onProgress :: "ProgressEvent \<Rightarrow> VoiceEngine \<Rightarrow> VoiceEngine" where
  "onProgress data s = s\<lparr>progress := progress_value data, generationStage := stage data\<rparr>"

definition onComplete :: "nat \<Rightarrow> CompleteEvent \<Rightarrow> VoiceEngine \<Rightarrow> VoiceEngine" where
  "onComplete es data s =
     (close es (s\<lparr>outputMetadata := Some data, progress := 100\<rparr>))
       \<lparr>eventSourceRef := None, timers := timers s @ [Timer 600 Complete]\<rparr>"

text \<open>
  An \<open>error\<close> event of the stream. \<open>Message_event d\<close> is a \<open>MessageEvent\<close> with data:
  \<open>Malformed\<close> where \<open>JSON.parse\<close> throws, otherwise \<open>Parsed e\<close> with \<open>e\<close> the field
  \<open>error\<close> of the payload (\<open>None\<close> where it is absent). \<open>Plain_event\<close> is any other event,
  and a \<open>MessageEvent\<close> without data: what the browser raises when the connection drops.
  \<open>data.error || "Generation failed"\<close> takes the second text for an empty message too.
\<close>

datatype error_data = Malformed | Parsed "string option"

datatype error_event = Plain_event | Message_event error_data

definition errorText :: "error_event \<Rightarrow> string" where
  "errorText e =
     (case e of
        Message_event d \<Rightarrow>
          (case d of
             Parsed (Some m) \<Rightarrow> (if m = '''' then ''Generation failed'' else m)
           | Parsed None \<Rightarrow> ''Generation failed''
           | Malformed \<Rightarrow> ''Generation failed'')
      | Plain_event \<Rightarrow> ''Connection to server lost'')"

definition onError :: "nat \<Rightarrow> error_event \<Rightarrow> VoiceEngine \<Rightarrow> VoiceEngine" where
  "onError es e s =
     (close es (s\<lparr>error := Some (errorText e)\<rparr>))
       \<lparr>eventSourceRef := None, state := Script_uploaded\<rparr>"

text \<open>\<open>handleDownload\<close> clicks a link it creates and changes nothing of the component.\<close>

definition handleDownload :: "VoiceEngine \<Rightarrow> VoiceEngine" where
  "handleDownload s = s"

definition handleReset :: "VoiceEngine \<Rightarrow> VoiceEngine" where
  "handleReset s =
     (case eventSourceRef s of None \<Rightarrow> s | Some es \<Rightarrow> (close es s)\<lparr>eventSourceRef := None\<rparr>)
       \<lparr>state := Idle, audioFile := None, scriptText := '''', progress := 0,
        generationStage := '''', isPlaying := False, error := None, taskId := None,
        audioMetadata := None, outputMetadata := None\<rparr>"

definition togglePlayback :: "VoiceEngine \<Rightarrow> VoiceEngine" where
  "togglePlayback s = s\<lparr>isPlaying := \<not> isPlaying s\<rparr>"

definition insertTag :: "string \<Rightarrow> VoiceEngine \<Rightarrow> VoiceEngine" where
  "insertTag tag s =
     (let prev = scriptText s;
          needsSpace = (0 < length prev \<and> \<not> endsWith prev CHR '' '' \<and> \<not> endsWith prev CHR 0x0A);
          s' = s\<lparr>scriptText := prev @ (if needsSpace then '' '' else '''') @ tag @ '' ''\<rparr>
      in if trim (scriptText s) \<noteq> '''' \<and> state s = Processed
         then s'\<lparr>state := Script_uploaded\<rparr> else s')"

text \<open>The \<open>onChange\<close> of the text area.\<close>

definition setScriptText :: "string \<Rightarrow> VoiceEngine \<Rightarrow> VoiceEngine" where
  "setScriptText t s = s\<lparr>scriptText := t\<rparr>"

subsection \<open>The effects\<close>

text \<open>The effect on \<open>[scriptText, state]\<close> that toggles between the two script states.\<close>

definition scriptEffect :: "VoiceEngine \<Rightarrow> VoiceEngine" where
  "scriptEffect s =
     (if state s = Processed \<and> trim (scriptText s) \<noteq> '''' then s\<lparr>state := Script_uploaded\<rparr>
      else if state s = Script_uploaded \<and> trim (scriptText s) = '''' then s\<lparr>state := Processed\<rparr>
      else s)"

text \<open>
  The health effect on \<open>[modelReady]\<close>. One pass through the body of its loop is
  \<open>pollOnce\<close>: the component after the pass, and whether the loop returns or sleeps (for
  how many milliseconds) before the next pass.
\<close>

datatype poll_next = Return | Sleep nat

definition pollOnce :: "health_reply \<Rightarrow> VoiceEngine \<Rightarrow> VoiceEngine \<times> poll_next" where
  "pollOnce r s =
     (case checkHealth r of
        Inr h \<Rightarrow>
          (let s = s\<lparr>modelStatus := model_status h\<rparr> in
           if model_loaded h then (s\<lparr>modelReady := True, modelLoading := False\<rparr>, Return)
           else if model_status h = ''failed'' then
             (s\<lparr>modelLoading := False,
                error := Some (''Model failed to load: '' @
                  (case model_error h of Some m \<Rightarrow> m | None \<Rightarrow> ''unknown error''))\<rparr>, Return)
           else (s\<lparr>modelLoading := model_loading h\<rparr>, Sleep 3000))
      | Inl message \<Rightarrow> (s\<lparr>modelLoading := True, modelStatus := ''connecting''\<rparr>, Sleep 3000))"


text \<open>
  The effect itself, run when \<open>modelReady\<close> has changed: it returns at once when the model
  is ready (its clean-up has cancelled the previous loop), and starts the loop otherwise.
\<close>

definition healthEffect :: "VoiceEngine \<Rightarrow> VoiceEngine" where
  "healthEffect s = (if modelReady s then s\<lparr>polling := False\<rparr> else s\<lparr>polling := True\<rparr>)"

subsection \<open>What can happen to the component\<close>

text \<open>
  The clicks and inputs of the user, and the callbacks of requests, timers and streams.
  \<open>enabled\<close> says when an event can happen: a control must be rendered and not disabled
  (the conditions are those of the JSX), a request must be awaited, a timer pending, a
  stream open.
\<close>

datatype event =
    Select_audio File
  | Clear_audio
  | Click_process
  | Upload_settles upload_reply
  | Timer_fires nat
  | Type_script string
  | Click_tag string
  | Click_generate
  | Sse_progress nat ProgressEvent
  | Sse_complete nat CompleteEvent
  | Sse_error nat error_event
  | Click_download
  | Click_reset
  | Click_playback
  | Dismiss_error
  | Health health_reply

definition errorShown :: "VoiceEngine \<Rightarrow> bool" where
  "errorShown s = (error s \<noteq> None \<and> error s \<noteq> Some [])"

definition uploadZoneShown :: "VoiceEngine \<Rightarrow> bool" where
  "uploadZoneShown s = (state s = Idle \<or> state s = Audio_uploaded)"

definition scriptStepShown :: "VoiceEngine \<Rightarrow> bool" where
  "scriptStepShown s = (state s = Processed \<or> state s = Script_uploaded)"

fun enabled :: "event \<Rightarrow> VoiceEngine \<Rightarrow> bool" where
  "enabled (Select_audio f) s = uploadZoneShown s"
| "enabled Clear_audio s = (uploadZoneShown s \<and> audioFile s \<noteq> None)"
| "enabled Click_process s = (uploadZoneShown s \<and> audioFile s \<noteq> None)"
| "enabled (Upload_settles r) s = (0 < uploads s)"
| "enabled (Timer_fires i) s = (i < length (timers s))"
| "enabled (Type_script t) s = scriptStepShown s"
| "enabled (Click_tag tag) s = scriptStepShown s"
| "enabled Click_generate s = (scriptStepShown s \<and> trim (scriptText s) \<noteq> '''' \<and> modelReady s)"
| "enabled (Sse_progress es d) s = (es \<in> set (streams s))"
| "enabled (Sse_complete es d) s = (es \<in> set (streams s))"
| "enabled (Sse_error es e) s = (es \<in> set (streams s))"
| "enabled Click_download s = (state s = Complete)"
| "enabled Click_reset s = (state s = Complete)"
| "enabled Click_playback s = (state s = Complete)"
| "enabled Dismiss_error s = errorShown s"
| "enabled (Health r) s = polling s"

fun handle :: "event \<Rightarrow> VoiceEngine \<Rightarrow> VoiceEngine" where
  "handle (Select_audio f) s = handleAudioSelect f s"
| "handle Clear_audio s = handleAudioClear s"
| "handle Click_process s = handleProcessAudio s"
| "handle (Upload_settles r) s = handleProcessAudio_resume r s"
| "handle (Timer_fires i) s =
     (case timers s ! i of
        Timer ms st \<Rightarrow> s\<lparr>state := st, timers := take i (timers s) @ drop (Suc i) (timers s)\<rparr>)"
| "handle (Type_script t) s = setScriptText t s"
| "handle (Click_tag tag) s = insertTag tag s"
| "handle Click_generate s = handleGenerateVoice s"
| "handle (Sse_progress es d) s = onProgress d s"
| "handle (Sse_complete es d) s = onComplete es d s"
| "handle (Sse_error es e) s = onError es e s"
| "handle Click_download s = handleDownload s"
| "handle Click_reset s = handleReset s"
| "handle Click_playback s = togglePlayback s"
| "handle Dismiss_error s = s\<lparr>error := None\<rparr>"
| "handle (Health r) s = (case pollOnce r s of (s', nx) \<Rightarrow> s'\<lparr>polling := (nx \<noteq> Return)\<rparr>)"

text \<open>
  After a callback the component renders again and the effects whose dependencies have
  changed run: \<open>prev\<close> is the component before the callback. The script effect run a
  second time changes nothing, so one run settles it.
\<close>

definition rerender :: "VoiceEngine \<Rightarrow> VoiceEngine \<Rightarrow> VoiceEngine" where
  "rerender prev s =
     (let s = (if scriptText s \<noteq> scriptText prev \<or> state s \<noteq> state prev then scriptEffect s else s)
      in if modelReady s \<noteq> modelReady prev then healthEffect s else s)"

text \<open>An event that cannot happen leaves the component as it is.\<close>

definition step :: "event \<Rightarrow> VoiceEngine \<Rightarrow> VoiceEngine" where
  "step e s = (if enabled e s then rerender s (handle e s) else s)"

definition steps :: "event list \<Rightarrow> VoiceEngine \<Rightarrow> VoiceEngine" where
  "steps es s = foldl (\<lambda>s e. step e s) s es"

text \<open>The reachable components: \<open>run es\<close> for a list \<open>es\<close> of events, the first event first.\<close>

definition run :: "event list \<Rightarrow> VoiceEngine" where
  "run es = steps es initial"


section \<open>The invariants\<close>

text \<open>The two invariants of the data model and the claims on derived text, in the words of the specification.\<close>

definition taskId_invariant :: "VoiceEngine \<Rightarrow> bool" where
  "taskId_invariant s =
     ((taskId s \<noteq> None) = (state s \<in> {Processed, Script_uploaded, Generating, Complete}))"

definition outputMetadata_invariant :: "VoiceEngine \<Rightarrow> bool" where
  "outputMetadata_invariant s = ((outputMetadata s \<noteq> None) = (state s = Complete))"

text \<open>Scripted exactly when the script text is not empty, analyzed exactly when it is.\<close>

definition derived_by_emptiness :: "VoiceEngine \<Rightarrow> bool" where
  "derived_by_emptiness s = (state s = (if scriptText s = [] then Processed else Script_uploaded))"


text \<open>
  The message of a response that is not a success: the readable message of the body (its
  \<open>detail\<close>, a text) when it has one, the message built from the status otherwise.
\<close>

definition message_or_status :: "nat \<Rightarrow> upload_body \<Rightarrow> string" where
  "message_or_status st body =
     (case body of
        Json (JObject fs) \<Rightarrow>
          (case map_of (rev fs) ''detail'' of
             Some (JString d) \<Rightarrow> d
           | _ \<Rightarrow> ''Upload failed ('' @ decimal st @ '')'')
      | _ \<Rightarrow> ''Upload failed ('' @ decimal st @ '')'')"

text \<open>
  The bodies for which the code gives that message: a body that is not JSON, and a JSON
  value other than \<open>null\<close> whose \<open>detail\<close> is a text, is \<open>null\<close> or is missing.
\<close>

definition plain_detail :: "upload_body \<Rightarrow> bool" where
  "plain_detail body =
     (case body of
        Not_json \<Rightarrow> True
      | Json JNull \<Rightarrow> False
      | Json (JObject fs) \<Rightarrow>
          (case map_of (rev fs) ''detail'' of
             None \<Rightarrow> True
           | Some JNull \<Rightarrow> True
           | Some (JString d) \<Rightarrow> True
           | Some _ \<Rightarrow> False)
      | Json _ \<Rightarrow> True)"


text \<open>
  What holds of every reachable component, state by state. \<open>quiet\<close>: nothing is
  awaited, pending or open.
\<close>

definition quiet :: "VoiceEngine \<Rightarrow> bool" where
  "quiet s = (uploads s = 0 \<and> timers s = [] \<and> eventSourceRef s = None \<and> streams s = [])"

definition coherent :: "VoiceEngine \<Rightarrow> bool" where
  "coherent s =
     (case state s of
        Idle \<Rightarrow> quiet s \<and> taskId s = None \<and> outputMetadata s = None
      | Audio_uploaded \<Rightarrow> quiet s \<and> taskId s = None \<and> outputMetadata s = None
      | Processing \<Rightarrow>
          eventSourceRef s = None \<and> streams s = [] \<and> outputMetadata s = None \<and>
          (if timers s = [] then uploads s = 1 \<and> taskId s = None
           else uploads s = 0 \<and> timers s = [Timer 400 Processed] \<and> taskId s \<noteq> None)
      | Processed \<Rightarrow> quiet s \<and> taskId s \<noteq> None \<and> outputMetadata s = None
      | Script_uploaded \<Rightarrow> quiet s \<and> taskId s \<noteq> None \<and> outputMetadata s = None
      | Generating \<Rightarrow>
          uploads s = 0 \<and> taskId s \<noteq> None \<and>
          (case eventSourceRef s of
             Some es \<Rightarrow> streams s = [es] \<and> timers s = [] \<and> outputMetadata s = None
           | None \<Rightarrow> streams s = [] \<and> timers s = [Timer 600 Complete] \<and> outputMetadata s \<noteq> None)
      | Complete \<Rightarrow> quiet s \<and> taskId s \<noteq> None \<and> outputMetadata s \<noteq> None)"

definition settled :: "VoiceEngine \<Rightarrow> bool" where
  "settled s =
     (if state s = Processed then trim (scriptText s) = []
      else if state s = Script_uploaded then trim (scriptText s) \<noteq> [] else True)"


section \<open>Scenarios\<close>

definition sampleUpload :: UploadAudioResponse where
  "sampleUpload =
     \<lparr>task_id = ''abc123'', filename = ''sample.wav'', duration = 1234 / 100,
      duration_formatted = ''00:12.34s'', sample_rate = 44100, channels = 1,
      frequency_range = ''80Hz-8kHz'', quality_score = 87\<rparr>"

definition sampleComplete :: CompleteEvent where
  "sampleComplete =
     \<lparr>complete_task_id = ''abc123'', complete_duration_formatted = ''00:12.34s'',
      complete_sample_rate = 24000, file_size_bytes = 2345678\<rparr>"

definition modelLoaded :: HealthResponse where
  "modelLoaded =
     \<lparr>status = ''ok'', model_loaded = True, model_loading = False, model_status = ''ready'',
      model_error = None, device = Some ''cpu''\<rparr>"



text \<open>
  Two responses that are not a success: a status 400 with the body \<open>null\<close>, and a status
  422 whose \<open>detail\<close> is a list of objects. The texts are those an engine gives its
  errors.
\<close>

definition rejectedWithNull :: upload_reply where
  "rejectedWithNull =
     Upload_not_ok 400 (Json JNull) ''Cannot read properties of null (reading 'detail')''"

definition rejectedWithList :: upload_reply where
  "rejectedWithList =
     Upload_not_ok 422
       (Json (JObject [(''detail'', JArray [JObject [(''msg'', JString ''Field required'')]])]))
       ''Cannot convert object to primitive value''"

text \<open>The file is selected and processed; the upload has succeeded.\<close>

definition scenario_uploaded :: "event list" where
  "scenario_uploaded =
     [Select_audio ''sample.wav'', Click_process, Upload_settles (Upload_ok sampleUpload)]"

text \<open>Then the delay of 400 ms has passed.\<close>

definition scenario_analyzed :: "event list" where
  "scenario_analyzed = scenario_uploaded @ [Timer_fires 0]"

text \<open>Then the model is loaded, a script is typed and generation is started.\<close>

definition scenario_generating :: "event list" where
  "scenario_generating =
     scenario_analyzed @ [Health (Health_ok modelLoaded), Type_script ''Hello'', Click_generate]"

text \<open>Then the stream has sent its \<open>complete\<close> event.\<close>

definition scenario_finishing :: "event list" where
  "scenario_finishing = scenario_generating @ [Sse_complete 0 sampleComplete]"


section \<open>Properties of the formatting helpers\<close>

lemma decimal_step: "10 \<le> n \<Longrightarrow> decimal n = decimal (n div 10) @ [digitChar (n mod 10)]"
  by (subst decimal.simps) simp

lemma decimal_nonempty: "decimal n \<noteq> []"
  by (subst decimal.simps) simp

lemma toFixed_one_digit:
  assumes "0 \<le> x" and "10 \<le> nat \<lfloor>x * 10 + 1 / 2\<rfloor>"
  shows "toFixed x 1 =
           decimal (nat \<lfloor>x * 10 + 1 / 2\<rfloor> div 10) @ ''.'' @
           [digitChar (nat \<lfloor>x * 10 + 1 / 2\<rfloor> mod 10)]"
proof -
  let ?n = "nat \<lfloor>x * 10 + 1 / 2\<rfloor>"
  have d: "decimal ?n = decimal (?n div 10) @ [digitChar (?n mod 10)]"
    using assms(2) by (rule decimal_step)
  have ne: "decimal (?n div 10) \<noteq> []" by (rule decimal_nonempty)
  then have len: "\<not> length (decimal ?n) \<le> 1"
    by (subst d) (simp add: Suc_le_eq)
  have k: "length (decimal ?n) - 1 = length (decimal (?n div 10))"
    by (subst d) simp
  have "take (length (decimal ?n) - 1) (decimal ?n) = decimal (?n div 10)"
    unfolding k by (subst d) simp
  moreover have "drop (length (decimal ?n) - 1) (decimal ?n) = [digitChar (?n mod 10)]"
    unfolding k by (subst d) simp
  ultimately show ?thesis
    using assms(1) len by (simp add: toFixed_def Let_def)
qed

lemma tenths_of_megabytes:
  "nat \<lfloor>(of_nat b / (1024 * 1024) :: rat) * 10 + 1 / 2\<rfloor> = (10 * b + 524288) div 1048576"
proof -
  have "(of_nat b / (1024 * 1024) :: rat) * 10 + 1 / 2 = of_nat (10 * b + 524288) / of_nat 1048576"
    by (simp add: field_simps)
  then show ?thesis
    by (simp only: floor_divide_of_nat_eq nat_int)
qed

lemma formatFileSize_megabytes:
  assumes "1048576 \<le> bytes"
  shows "formatFileSize bytes =
           decimal ((10 * bytes + 524288) div 1048576 div 10) @ ''.'' @
           [digitChar ((10 * bytes + 524288) div 1048576 mod 10)] @ '' MB''"
proof -
  have big: "10 \<le> (10 * bytes + 524288) div 1048576"
    using assms by simp
  have "toFixed (of_nat bytes / (1024 * 1024)) 1 =
          decimal ((10 * bytes + 524288) div 1048576 div 10) @ ''.'' @
           [digitChar ((10 * bytes + 524288) div 1048576 mod 10)]"
    using toFixed_one_digit [of "of_nat bytes / (1024 * 1024)"] big
    unfolding tenths_of_megabytes by simp
  then show ?thesis
    using assms by (simp add: formatFileSize_def)
qed

text \<open>
  Claim C9. The examples of the specification: a duration of 72.5 seconds is rendered as
  \<open>01:12.50s\<close>, 2345678 bytes as \<open>2.2 MB\<close> and 500 bytes as \<open>500 B\<close>.
\<close>

theorem format_examples:
  "formatDuration (145 / 2) = ''01:12.50s'' \<and>
   formatFileSize 2345678 = ''2.2 MB'' \<and>
   formatFileSize 500 = ''500 B''"
proof -
  have a: "formatDuration (145 / 2) = ''01:12.50s''" by code_simp
  have d2: "decimal 2 = ''2''" by code_simp
  have c2: "digitChar 2 = CHR ''2''" by code_simp
  have b: "formatFileSize 2345678 = ''2.2 MB''"
    using formatFileSize_megabytes [of 2345678] d2 c2 by simp
  have c: "formatFileSize 500 = ''500 B''" by code_simp
  show ?thesis using a b c by simp
qed

text \<open>
  Claim C10. \<open>formatFileSize\<close> has no unit above MB. For every byte count of at least
  \<open>1024 * 1024\<close> (and below \<open>2 ^ 53\<close>, the integers a number holds exactly) the result is
  the count divided by 1048576, rounded to tenths, printed as the digits of the whole
  part, a point, one digit, and the suffix \<open>MB\<close>. With \<open>q\<close> the number of tenths,
  \<open>q = (10 * bytes + 524288) div 1048576\<close>, the whole part is \<open>q div 10\<close> and the digit
  is \<open>q mod 10\<close>. Three gibibytes are rendered as \<open>3072.0 MB\<close>.
\<close>

theorem formatFileSize_MB:
  assumes "1048576 \<le> bytes" and "bytes < 2 ^ 53"
  shows "formatFileSize bytes =
           decimal ((10 * bytes + 524288) div 1048576 div 10) @ ''.'' @
           [digitChar ((10 * bytes + 524288) div 1048576 mod 10)] @ '' MB''"
  using assms(1) by (rule formatFileSize_megabytes)

text \<open>Three gibibytes.\<close>

theorem formatFileSize_MB_witness:
  "(1048576::nat) \<le> 3221225472 \<and> (3221225472::nat) < 2 ^ 53 \<and>
   formatFileSize 3221225472 = ''3072.0 MB''"
proof -
  have a: "(1048576::nat) \<le> 3221225472" by simp
  have b: "(3221225472::nat) < 2 ^ 53" by simp
  have c: "decimal 3072 = ''3072''" by code_simp
  have d: "digitChar 0 = CHR ''0''" by code_simp
  show ?thesis using formatFileSize_MB [OF a b] c d by simp
qed


section \<open>Every reachable component is coherent and settled\<close>

lemmas handler_defs =
  handleAudioSelect_def handleAudioClear_def handleProcessAudio_def handleProcessAudio_resume_def
  handleGenerateVoice_def onProgress_def onComplete_def onError_def handleDownload_def
  handleReset_def togglePlayback_def insertTag_def setScriptText_def close_def pollOnce_def
  uploadZoneShown_def scriptStepShown_def

lemma coherent_initial: "coherent initial"
  by (simp add: coherent_def initial_def quiet_def)

lemma settled_initial: "settled initial"
  by (simp add: settled_def initial_def)

lemma coherent_scriptEffect: "coherent s \<Longrightarrow> coherent (scriptEffect s)"
  by (cases "state s") (simp_all add: coherent_def scriptEffect_def quiet_def)

lemma settled_scriptEffect: "settled (scriptEffect s)"
  by (simp add: settled_def scriptEffect_def)

lemma scriptEffect_idem: "scriptEffect (scriptEffect s) = scriptEffect s"
  by (simp add: scriptEffect_def)

lemma coherent_healthEffect: "coherent (healthEffect s) = coherent s"
  by (cases "state s")
     (simp_all add: coherent_def healthEffect_def quiet_def split: option.splits)

lemma settled_healthEffect: "settled (healthEffect s) = settled s"
  by (simp add: settled_def healthEffect_def)

lemma coherent_rerender: "coherent s \<Longrightarrow> coherent (rerender prev s)"
  by (simp add: rerender_def Let_def coherent_healthEffect coherent_scriptEffect)

lemma settled_unchanged:
  "settled prev \<Longrightarrow> scriptText s = scriptText prev \<Longrightarrow> state s = state prev \<Longrightarrow> settled s"
  by (simp add: settled_def)

lemma settled_rerender: "settled prev \<Longrightarrow> settled (rerender prev s)"
  by (auto simp add: rerender_def Let_def settled_healthEffect settled_scriptEffect
       intro: settled_unchanged)

lemma coherent_handle:
  assumes "coherent s" and "enabled e s"
  shows "coherent (handle e s)"
proof (cases e)
  case (Select_audio f)
  with assms show ?thesis
    by (cases "state s") (simp_all add: coherent_def quiet_def handler_defs)
next
  case Clear_audio
  with assms show ?thesis
    by (cases "state s") (simp_all add: coherent_def quiet_def handler_defs)
next
  case Click_process
  with assms show ?thesis
    by (cases "state s") (auto simp add: coherent_def quiet_def handler_defs)
next
  case (Upload_settles r)
  with assms show ?thesis
    by (cases "state s"; cases "uploadAudio r")
       (auto simp add: coherent_def quiet_def handler_defs split: if_splits)
next
  case (Timer_fires i)
  with assms show ?thesis
    by (cases "state s")
       (auto simp add: coherent_def quiet_def split: if_splits option.splits)
next
  case (Type_script t)
  with assms show ?thesis
    by (cases "state s") (simp_all add: coherent_def quiet_def handler_defs)
next
  case (Click_tag tag)
  with assms show ?thesis
    by (cases "state s") (simp_all add: coherent_def quiet_def handler_defs Let_def)
next
  case Click_generate
  with assms show ?thesis
    by (cases "state s") (auto simp add: coherent_def quiet_def handler_defs)
next
  case (Sse_progress es d)
  with assms show ?thesis
    by (cases "state s")
       (simp_all add: coherent_def quiet_def handler_defs split: option.splits)
next
  case (Sse_complete es d)
  with assms show ?thesis
    by (cases "state s")
       (auto simp add: coherent_def quiet_def handler_defs split: if_splits option.splits)
next
  case (Sse_error es ev)
  with assms show ?thesis
    by (cases "state s")
       (auto simp add: coherent_def quiet_def handler_defs split: if_splits option.splits)
next
  case Click_download
  with assms show ?thesis by (simp add: handler_defs)
next
  case Click_reset
  with assms show ?thesis
    by (auto simp add: coherent_def quiet_def handler_defs split: option.splits)
next
  case Click_playback
  with assms show ?thesis
    by (cases "state s")
       (simp_all add: coherent_def quiet_def handler_defs split: option.splits)
next
  case Dismiss_error
  with assms show ?thesis
    by (cases "state s") (simp_all add: coherent_def quiet_def split: option.splits)
next
  case (Health r)
  with assms show ?thesis
    by (cases "state s"; cases "checkHealth r")
       (simp_all add: coherent_def quiet_def handler_defs Let_def split: option.splits)
qed

lemma coherent_step: "coherent s \<Longrightarrow> coherent (step e s)"
  by (simp add: step_def coherent_rerender coherent_handle)

lemma settled_step: "settled s \<Longrightarrow> settled (step e s)"
  by (simp add: step_def settled_rerender)

lemma coherent_steps: "coherent s \<Longrightarrow> coherent (steps es s)"
  unfolding steps_def by (induction es arbitrary: s) (simp_all add: coherent_step)

lemma settled_steps: "settled s \<Longrightarrow> settled (steps es s)"
  unfolding steps_def by (induction es arbitrary: s) (simp_all add: settled_step)

lemma coherent_run: "coherent (run es)"
  by (simp add: run_def coherent_steps coherent_initial)

lemma settled_run: "settled (run es)"
  by (simp add: run_def settled_steps settled_initial)

lemma streams_run:
  "streams (run es) = (case eventSourceRef (run es) of None \<Rightarrow> [] | Some h \<Rightarrow> [h])"
  using coherent_run [of es]
  by (cases "state (run es)")
     (auto simp add: coherent_def quiet_def split: if_splits option.splits)

lemma open_stream_generating: "streams (run es) \<noteq> [] \<Longrightarrow> state (run es) = Generating"
  using coherent_run [of es]
  by (cases "state (run es)")
     (auto simp add: coherent_def quiet_def split: if_splits option.splits)


section \<open>The scenarios, evaluated\<close>

lemma run_snoc: "run (es @ [e]) = step e (run es)"
  by (simp add: run_def steps_def)

lemma trim_Nil: "trim [] = []"
  by (simp add: trim_def)

lemma trim_Hello: "trim ''Hello'' = ''Hello''"
  by (simp add: trim_def isWhiteSpace_def)

lemma trim_blank: "trim '' '' = []"
  by (simp add: trim_def isWhiteSpace_def)

lemmas eval_defs =
  step_def rerender_def scriptEffect_def healthEffect_def handler_defs checkHealth_def
  uploadAudio_def Let_def errorShown_def

lemma run_selected:
  "run [Select_audio ''sample.wav''] =
     initial\<lparr>state := Audio_uploaded, audioFile := Some ''sample.wav''\<rparr>"
  by (simp add: run_def steps_def initial_def eval_defs)

lemma run_uploaded:
  "run scenario_uploaded =
     initial\<lparr>state := Processing, audioFile := Some ''sample.wav'', progress := 100,
       taskId := Some ''abc123'', audioMetadata := Some sampleUpload,
       timers := [Timer 400 Processed]\<rparr>"
  by (simp add: scenario_uploaded_def run_def steps_def initial_def eval_defs sampleUpload_def)

lemma run_analyzed:
  "run scenario_analyzed =
     initial\<lparr>state := Processed, audioFile := Some ''sample.wav'', progress := 100,
       taskId := Some ''abc123'', audioMetadata := Some sampleUpload\<rparr>"
  unfolding scenario_analyzed_def run_snoc run_uploaded
  by (simp add: initial_def eval_defs trim_Nil)

lemma run_generating:
  "run scenario_generating =
     initial\<lparr>state := Generating, audioFile := Some ''sample.wav'', scriptText := ''Hello'',
       progress := 0, generationStage := ''Initializing'', modelReady := True,
       modelLoading := False, modelStatus := ''ready'', taskId := Some ''abc123'',
       audioMetadata := Some sampleUpload, eventSourceRef := Some 0, streams := [0],
       nextStream := 1, polling := False\<rparr>"
proof -
  have "run scenario_generating =
      step Click_generate (step (Type_script ''Hello'')
        (step (Health (Health_ok modelLoaded)) (run scenario_analyzed)))"
    by (simp add: scenario_generating_def run_def steps_def)
  then show ?thesis
    unfolding run_analyzed
    by (simp add: initial_def eval_defs modelLoaded_def trim_Hello trim_Nil)
qed

lemma run_finishing:
  "run scenario_finishing =
     initial\<lparr>state := Generating, audioFile := Some ''sample.wav'', scriptText := ''Hello'',
       progress := 100, generationStage := ''Initializing'', modelReady := True,
       modelLoading := False, modelStatus := ''ready'', taskId := Some ''abc123'',
       audioMetadata := Some sampleUpload, outputMetadata := Some sampleComplete,
       nextStream := 1, timers := [Timer 600 Complete], polling := False\<rparr>"
  unfolding scenario_finishing_def run_snoc run_generating
  by (simp add: initial_def eval_defs)


section \<open>The invariants of the data model\<close>

text \<open>
  Claim C1, as the specification states it: \<open>taskId\<close> is set exactly in the states
  processed, script-uploaded, generating and complete. It fails once the upload has
  succeeded: the callback stores \<open>taskId\<close> at once and leaves the state at processing for
  the 400 ms of the timer.
\<close>

theorem taskId_set_before_analyzed: "\<not> taskId_invariant (run scenario_uploaded)"
  by (simp add: taskId_invariant_def run_uploaded)

text \<open>
  Claim C1, amended. In every reachable component \<open>taskId\<close> is set exactly when the
  state is processed, script-uploaded, generating or complete, or the state is processing
  and the timer that moves it to processed is pending. It is null in idle and
  audio-uploaded, and in processing while the upload is awaited.
\<close>

theorem taskId_iff_state:
  "(taskId (run es) \<noteq> None) =
     (state (run es) \<in> {Processed, Script_uploaded, Generating, Complete} \<or>
      state (run es) = Processing \<and> timers (run es) = [Timer 400 Processed])"
  using coherent_run [of es]
  by (cases "state (run es)")
     (auto simp add: coherent_def quiet_def split: if_splits option.splits)

theorem taskId_iff_state_witness:
  "taskId (run scenario_uploaded) \<noteq> None \<and> state (run scenario_uploaded) = Processing \<and>
   timers (run scenario_uploaded) = [Timer 400 Processed] \<and>
   taskId (run scenario_analyzed) \<noteq> None \<and> state (run scenario_analyzed) = Processed \<and>
   taskId (run [Select_audio ''sample.wav'']) = None"
  using taskId_iff_state [of scenario_uploaded] taskId_iff_state [of scenario_analyzed]
    taskId_iff_state [of "[Select_audio ''sample.wav'']"]
  by (simp add: run_uploaded run_analyzed run_selected initial_def)

text \<open>
  Claim C2, as the specification states it: \<open>outputMetadata\<close> is set exactly in the state
  complete. It fails once the stream has sent \<open>complete\<close>: the listener stores the
  metadata at once and leaves the state at generating for the 600 ms of the timer.
\<close>

theorem outputMetadata_set_while_generating: "\<not> outputMetadata_invariant (run scenario_finishing)"
  by (simp add: outputMetadata_invariant_def run_finishing)

text \<open>
  Claim C2, amended. In every reachable component \<open>outputMetadata\<close> is set exactly when
  the state is complete, or the state is generating and the timer that moves it to
  complete is pending. It is null in every other state, and in generating while the
  stream is open.
\<close>

theorem outputMetadata_iff_state:
  "(outputMetadata (run es) \<noteq> None) =
     (state (run es) = Complete \<or>
      state (run es) = Generating \<and> timers (run es) = [Timer 600 Complete])"
  using coherent_run [of es]
  by (cases "state (run es)")
     (auto simp add: coherent_def quiet_def split: if_splits option.splits)

theorem outputMetadata_iff_state_witness:
  "outputMetadata (run scenario_finishing) \<noteq> None \<and>
   state (run scenario_finishing) = Generating \<and>
   timers (run scenario_finishing) = [Timer 600 Complete] \<and>
   outputMetadata (run scenario_generating) = None \<and>
   state (run scenario_generating) = Generating \<and>
   outputMetadata (run (scenario_finishing @ [Timer_fires 0])) \<noteq> None \<and>
   state (run (scenario_finishing @ [Timer_fires 0])) = Complete"
proof -
  have "state (run (scenario_finishing @ [Timer_fires 0])) = Complete"
    unfolding run_snoc run_finishing by (simp add: initial_def eval_defs)
  then show ?thesis
    using outputMetadata_iff_state [of scenario_finishing]
      outputMetadata_iff_state [of scenario_generating]
      outputMetadata_iff_state [of "scenario_finishing @ [Timer_fires 0]"]
    by (simp add: run_finishing run_generating initial_def)
qed


section \<open>The generation stream\<close>

text \<open>
  Claim C3. After every list of events at most one stream is open; and while a stream is
  open the generate action cannot happen: a trigger changes nothing and opens no stream.
  The state is then generating, where the button of the action is not rendered.
\<close>

theorem one_open_stream:
  "length (streams (run es)) \<le> 1 \<and>
   (streams (run es) \<noteq> [] \<longrightarrow>
      \<not> enabled Click_generate (run es) \<and> step Click_generate (run es) = run es)"
proof -
  have "length (streams (run es)) \<le> 1"
    by (simp add: streams_run split: option.splits)
  moreover have "\<not> enabled Click_generate (run es) \<and> step Click_generate (run es) = run es"
    if "streams (run es) \<noteq> []"
  proof -
    have "\<not> enabled Click_generate (run es)"
      using open_stream_generating [OF that] by (simp add: scriptStepShown_def)
    then show ?thesis
      by (simp only: step_def if_False simp_thms)
  qed
  ultimately show ?thesis
    by blast
qed

text \<open>Generation has started: one stream is open, and a second trigger leaves it so.\<close>

theorem one_open_stream_witness:
  "streams (run scenario_generating) \<noteq> [] \<and>
   length (streams (run scenario_generating)) \<le> 1 \<and>
   step Click_generate (run scenario_generating) = run scenario_generating"
  using one_open_stream [of scenario_generating]
  by (simp add: run_generating)

text \<open>
  The rejection is that of the rendering. \<open>handleGenerateVoice\<close> itself tests the task
  identifier and the script only: called on the same component, it would open a second
  stream beside the first.
\<close>

lemma handleGenerateVoice_unguarded:
  "streams (handleGenerateVoice (run scenario_generating)) = [0, 1]"
  by (simp add: run_generating handleGenerateVoice_def trim_Hello initial_def)

text \<open>
  Claim C4. From every component, also in the middle of a generation, \<open>handleReset\<close>
  gives the state idle with the file, the script, the progress, the stage, the error, the
  task identifier and both metadata cleared and \<open>eventSourceRef\<close> empty; and where every
  open stream is the one \<open>eventSourceRef\<close> holds (as in every reachable component), no
  stream is open afterwards.
\<close>

theorem handleReset_clears:
  "state (handleReset s) = Idle \<and> audioFile (handleReset s) = None \<and>
   scriptText (handleReset s) = [] \<and> progress (handleReset s) = 0 \<and>
   generationStage (handleReset s) = [] \<and> isPlaying (handleReset s) = False \<and>
   error (handleReset s) = None \<and> taskId (handleReset s) = None \<and>
   audioMetadata (handleReset s) = None \<and> outputMetadata (handleReset s) = None \<and>
   eventSourceRef (handleReset s) = None \<and>
   ((\<forall>h \<in> set (streams s). eventSourceRef s = Some h) \<longrightarrow> streams (handleReset s) = [])"
proof -
  have "streams (handleReset s) = []" if "\<forall>h \<in> set (streams s). eventSourceRef s = Some h"
  proof (cases "eventSourceRef s")
    case None
    with that have "streams s = []" by (cases "streams s") auto
    with None show ?thesis by (simp add: handleReset_def)
  next
    case (Some es)
    with that have "\<forall>h \<in> set (streams s). h = es" by simp
    then have "removeAll es (streams s) = []"
      by (induction "streams s") (auto simp add: removeAll_id filter_empty_conv removeAll_filter_not_eq)
    with Some show ?thesis by (simp add: handleReset_def close_def)
  qed
  then show ?thesis
    by (simp add: handleReset_def close_def split: option.splits)
qed

text \<open>A reset in the middle of a generation.\<close>

theorem handleReset_clears_witness:
  "state (run scenario_generating) = Generating \<and>
   streams (run scenario_generating) = [0] \<and>
   eventSourceRef (run scenario_generating) = Some 0 \<and>
   state (handleReset (run scenario_generating)) = Idle \<and>
   taskId (handleReset (run scenario_generating)) = None \<and>
   scriptText (handleReset (run scenario_generating)) = [] \<and>
   eventSourceRef (handleReset (run scenario_generating)) = None \<and>
   streams (handleReset (run scenario_generating)) = []"
  using handleReset_clears [of "run scenario_generating"]
  by (simp add: run_generating initial_def)


section \<open>The script toggle\<close>

text \<open>
  Claim C5, as the specification states it: after an edit the state is script-uploaded
  exactly when the script text is not empty. It fails for a script of white space: the
  effect tests the trimmed text, so a script of one blank leaves the state at processed.
\<close>

theorem blank_script_stays_analyzed:
  "\<not> derived_by_emptiness (step (Type_script '' '') (run scenario_analyzed))"
  by (simp add: derived_by_emptiness_def run_analyzed initial_def eval_defs trim_blank)

lemma scriptEffect_state:
  "state s = Processed \<or> state s = Script_uploaded \<Longrightarrow>
   state (scriptEffect s) = (if trim (scriptText s) = [] then Processed else Script_uploaded)"
  by (auto simp add: scriptEffect_def)

lemma rerender_state:
  "state (rerender prev s) =
     (if scriptText s \<noteq> scriptText prev \<or> state s \<noteq> state prev then state (scriptEffect s)
      else state s)"
  by (simp add: rerender_def Let_def healthEffect_def)

lemma rerender_scriptText: "scriptText (rerender prev s) = scriptText s"
  by (simp add: rerender_def Let_def healthEffect_def scriptEffect_def)

text \<open>
  Claim C5, amended. In every reachable component whose state is processed or
  script-uploaded, after any edit of the script (typing a text \<open>t\<close> into the text area, or
  a click on a tag button) the state is script-uploaded exactly when the trimmed script
  text is not empty (the script has a character that is not white space), and processed
  exactly when it is empty, whatever the events before.
\<close>

theorem script_toggle:
  assumes "state (run es) = Processed \<or> state (run es) = Script_uploaded"
  shows "scriptText (step (Type_script t) (run es)) = t \<and>
         state (step (Type_script t) (run es)) =
           (if trim t = [] then Processed else Script_uploaded) \<and>
         state (step (Click_tag tag) (run es)) =
           (if trim (scriptText (step (Click_tag tag) (run es))) = [] then Processed
            else Script_uploaded)"
proof -
  let ?s = "run es"
  have en: "enabled (Type_script t) ?s" "enabled (Click_tag tag) ?s"
    using assms by (simp_all add: scriptStepShown_def)
  have st: "settled ?s" by (rule settled_run)
  have kept: "scriptText (step (Type_script t) ?s) = t"
    using en by (simp add: step_def rerender_scriptText setScriptText_def)
  have typed: "state (step (Type_script t) ?s) = (if trim t = [] then Processed else Script_uploaded)"
  proof (cases "t = scriptText ?s")
    case True
    then have "state (step (Type_script t) ?s) = state ?s"
      using en by (simp add: step_def rerender_state setScriptText_def)
    with st assms True show ?thesis
      by (auto simp add: settled_def)
  next
    case False
    then have "state (step (Type_script t) ?s) = state (scriptEffect (setScriptText t ?s))"
      using en by (auto simp add: step_def rerender_state setScriptText_def)
    also have "\<dots> = (if trim t = [] then Processed else Script_uploaded)"
      using assms scriptEffect_state [of "setScriptText t ?s"]
      by (simp add: setScriptText_def)
    finally show ?thesis .
  qed
  have grown: "scriptText (insertTag tag ?s) \<noteq> scriptText ?s"
    by (simp add: insertTag_def Let_def)
  have shown: "state (insertTag tag ?s) = Processed \<or> state (insertTag tag ?s) = Script_uploaded"
    using assms by (auto simp add: insertTag_def Let_def)
  have "state (step (Click_tag tag) ?s) = state (scriptEffect (insertTag tag ?s))"
    using en grown by (simp add: step_def rerender_state)
  also have "\<dots> = (if trim (scriptText (insertTag tag ?s)) = [] then Processed else Script_uploaded)"
    using shown by (rule scriptEffect_state)
  also have "scriptText (insertTag tag ?s) = scriptText (step (Click_tag tag) ?s)"
    using en by (simp add: step_def rerender_scriptText)
  finally have tagged: "state (step (Click_tag tag) ?s) =
      (if trim (scriptText (step (Click_tag tag) ?s)) = [] then Processed else Script_uploaded)" .
  from kept typed tagged show ?thesis by blast
qed

text \<open>A script is typed, a blank is typed, and a typed script is deleted again.\<close>

theorem script_toggle_witness:
  "state (run scenario_analyzed) = Processed \<and>
   state (step (Type_script ''Hello'') (run scenario_analyzed)) = Script_uploaded \<and>
   state (step (Type_script '' '') (run scenario_analyzed)) = Processed \<and>
   state (step (Type_script []) (step (Type_script ''Hello'') (run scenario_analyzed))) = Processed"
proof -
  have a: "state (run scenario_analyzed) = Processed \<or> state (run scenario_analyzed) = Script_uploaded"
    by (simp add: run_analyzed initial_def)
  have c: "state (run (scenario_analyzed @ [Type_script ''Hello''])) = Processed \<or>
           state (run (scenario_analyzed @ [Type_script ''Hello''])) = Script_uploaded"
    using script_toggle [OF a, of "''Hello''"] by (simp add: run_snoc trim_Hello)
  show ?thesis
    using script_toggle [OF a, of "''Hello''"] script_toggle [OF a, of "'' ''"]
      script_toggle [OF c, of "[]"]
    by (simp add: run_analyzed initial_def trim_Hello trim_blank trim_Nil run_snoc)
qed


section \<open>Failures\<close>

text \<open>
  An upload is started from a component that shows the upload step with a file selected,
  and the backend answers with a response that is not a success: whatever its body, the
  state is audio-uploaded again, the file is still selected, and the error is the
  message of the error that \<open>uploadAudio\<close> throws.
\<close>

lemma uploadAudio_not_ok: "\<exists>m. uploadAudio (Upload_not_ok st body t) = Inl m"
  by (simp add: uploadAudio_def split: read.splits json.splits option.splits)

lemma upload_not_ok_returns:
  assumes "state s = Idle \<or> state s = Audio_uploaded" and "audioFile s = Some file"
    and "uploadAudio (Upload_not_ok st body t) = Inl m"
  shows "state (step (Upload_settles (Upload_not_ok st body t)) (step Click_process s)) =
           Audio_uploaded \<and>
         audioFile (step (Upload_settles (Upload_not_ok st body t)) (step Click_process s)) =
           Some file \<and>
         error (step (Upload_settles (Upload_not_ok st body t)) (step Click_process s)) = Some m"
proof -
  have "step Click_process s =
          s\<lparr>state := Processing, progress := 0, error := None, uploads := Suc (uploads s)\<rparr>"
    using assms(1,2)
    by (auto simp add: step_def rerender_def scriptEffect_def handleProcessAudio_def
          uploadZoneShown_def Let_def)
  then show ?thesis
    using assms(2,3)
    by (simp add: step_def rerender_def scriptEffect_def handleProcessAudio_resume_def Let_def)
qed

text \<open>
  Where the body is not JSON, or is a JSON value other than \<open>null\<close> whose \<open>detail\<close> is a
  text, is \<open>null\<close> or is missing, the message is the one the specification names.
\<close>

lemma uploadAudio_message_or_status:
  "plain_detail body \<Longrightarrow> uploadAudio (Upload_not_ok st body t) = Inl (message_or_status st body)"
  by (auto simp add: plain_detail_def uploadAudio_def message_or_status_def readDetail_def
        split: upload_body.splits json.splits option.splits)

lemma decimal_status:
  "decimal 400 = ''400''" "decimal 413 = ''413''" "decimal 422 = ''422''"
  by code_simp+

lemma upload_rejected_examples:
  "error (step (Upload_settles (Upload_not_ok 413 Not_json []))
            (step Click_process (run [Select_audio ''sample.wav'']))) =
     Some ''Upload failed (413)'' \<and>
   error (step (Upload_settles
            (Upload_not_ok 415 (Json (JObject [(''detail'', JString ''Unsupported audio format'')])) []))
            (step Click_process (run [Select_audio ''sample.wav'']))) =
     Some ''Unsupported audio format''"
proof -
  have a: "state (run [Select_audio ''sample.wav'']) = Idle \<or>
           state (run [Select_audio ''sample.wav'']) = Audio_uploaded"
    by (simp add: run_selected initial_def)
  have b: "audioFile (run [Select_audio ''sample.wav'']) = Some ''sample.wav''"
    by (simp add: run_selected initial_def)
  have c: "uploadAudio (Upload_not_ok 413 Not_json []) = Inl ''Upload failed (413)''"
    by (simp add: uploadAudio_def readDetail_def decimal_status)
  have d: "uploadAudio
      (Upload_not_ok 415 (Json (JObject [(''detail'', JString ''Unsupported audio format'')])) []) =
      Inl ''Unsupported audio format''"
    by (simp add: uploadAudio_def readDetail_def)
  show ?thesis
    using upload_not_ok_returns [OF a b c] upload_not_ok_returns [OF a b d] by simp
qed

text \<open>
  Claim C6. The claim is that of the specification, and the code departs from it on two
  bodies. For a response 400 whose body is the JSON value \<open>null\<close>, reading \<open>body.detail\<close>
  throws (the \<open>catch\<close> after \<open>res.json()\<close> covers a body that is not JSON only), and the
  error stored is the text of that \<open>TypeError\<close>, where the claim names
  \<open>Upload failed (400)\<close>. For a response 422 whose \<open>detail\<close> is a list of objects, the
  error stored is \<open>[object Object]\<close>, where the body has no readable message and the
  claim names \<open>Upload failed (422)\<close>. In both the state is audio-uploaded again and the
  file is still selected.
\<close>

theorem upload_rejected_odd_bodies:
  "state (step (Upload_settles rejectedWithNull)
            (step Click_process (run [Select_audio ''sample.wav'']))) = Audio_uploaded \<and>
   audioFile (step (Upload_settles rejectedWithNull)
            (step Click_process (run [Select_audio ''sample.wav'']))) = Some ''sample.wav'' \<and>
   error (step (Upload_settles rejectedWithNull)
            (step Click_process (run [Select_audio ''sample.wav'']))) =
     Some ''Cannot read properties of null (reading 'detail')'' \<and>
   message_or_status 400 (Json JNull) = ''Upload failed (400)'' \<and>
   state (step (Upload_settles rejectedWithList)
            (step Click_process (run [Select_audio ''sample.wav'']))) = Audio_uploaded \<and>
   audioFile (step (Upload_settles rejectedWithList)
            (step Click_process (run [Select_audio ''sample.wav'']))) = Some ''sample.wav'' \<and>
   error (step (Upload_settles rejectedWithList)
            (step Click_process (run [Select_audio ''sample.wav'']))) =
     Some ''[object Object]'' \<and>
   message_or_status 422
     (Json (JObject [(''detail'', JArray [JObject [(''msg'', JString ''Field required'')]])])) =
     ''Upload failed (422)''"
proof -
  have a: "state (run [Select_audio ''sample.wav'']) = Idle \<or>
           state (run [Select_audio ''sample.wav'']) = Audio_uploaded"
    by (simp add: run_selected initial_def)
  have b: "audioFile (run [Select_audio ''sample.wav'']) = Some ''sample.wav''"
    by (simp add: run_selected initial_def)
  have c: "uploadAudio (Upload_not_ok 400 (Json JNull)
      ''Cannot read properties of null (reading 'detail')'') =
      Inl ''Cannot read properties of null (reading 'detail')''"
    by (simp add: uploadAudio_def readDetail_def)
  have d: "uploadAudio (Upload_not_ok 422
      (Json (JObject [(''detail'', JArray [JObject [(''msg'', JString ''Field required'')]])]))
      ''Cannot convert object to primitive value'') = Inl ''[object Object]''"
    by (simp add: uploadAudio_def readDetail_def)
  have e: "message_or_status 400 (Json JNull) = ''Upload failed (400)''"
    by (simp add: message_or_status_def decimal_status)
  have f: "message_or_status 422
     (Json (JObject [(''detail'', JArray [JObject [(''msg'', JString ''Field required'')]])])) =
     ''Upload failed (422)''"
    by (simp add: message_or_status_def decimal_status)
  show ?thesis
    using upload_not_ok_returns [OF a b c] upload_not_ok_returns [OF a b d] e f
    by (simp add: rejectedWithNull_def rejectedWithList_def)
qed





section \<open>The health poller\<close>








end
